theory Spec2Isabelle
  imports Complex_Main
begin

section \<open>Quadruped simulation: locomotion executor and object integrator\<close>

text \<open>
  A shallow embedding of the two per-frame callbacks of the simulation canvas
  (\<^verbatim>\<open>RobotController\<close> and \<^verbatim>\<open>RigidBodyObject\<close>) and of the queue-admission effect.
  JavaScript numbers are modelled as real numbers: comparisons, sums and products are the
  exact ones, and \<^verbatim>\<open>NaN\<close> and rounding do not exist in the model. Every \<^verbatim>\<open>useRef\<close>
  cell of a component is a field of the component's state record; props and the frame
  state handed to the callback are fields of an input record; callbacks invoked on the
  parent (\<^verbatim>\<open>onUpdateJoints\<close>, \<^verbatim>\<open>onClearQueue\<close>, \<^verbatim>\<open>onUpdateStats\<close>) are returned as
  an effects record.
\<close>

subsection \<open>Constants\<close>

definition MOVE_SPEED :: real where "MOVE_SPEED = 15 / 10"
definition ROT_SPEED :: real where "ROT_SPEED = 2"
definition GAIT_FREQ :: real where "GAIT_FREQ = 12"
definition GAIT_AMP :: real where "GAIT_AMP = 4 / 10"
definition GRAVITY :: real where "GRAVITY = 20"
definition JUMP_FORCE :: real where "JUMP_FORCE = 8"
definition GROUND_Y :: real where "GROUND_Y = 55 / 100"
definition ROBOT_COLLISION_RADIUS :: real where "ROBOT_COLLISION_RADIUS = 35 / 100"
definition OBJECT_COLLISION_RADIUS :: real where "OBJECT_COLLISION_RADIUS = 25 / 100"
definition COLLISION_DIST :: real where
  "COLLISION_DIST = ROBOT_COLLISION_RADIUS + OBJECT_COLLISION_RADIUS"

lemmas constants_defs =
  MOVE_SPEED_def ROT_SPEED_def GAIT_FREQ_def GAIT_AMP_def GRAVITY_def
  JUMP_FORCE_def GROUND_Y_def ROBOT_COLLISION_RADIUS_def OBJECT_COLLISION_RADIUS_def
  COLLISION_DIST_def

subsection \<open>Data model\<close>

text \<open>\<^verbatim>\<open>THREE.Vector3\<close>, restricted to its three coordinates.\<close>

record vec3 =
  vx :: real
  vy :: real
  vz :: real

text \<open>The joint pose: the twelve keys the controller reads and writes.\<close>

record joint_state =
  FL_hip :: real
  FL_thigh :: real
  FL_calf :: real
  FR_hip :: real
  FR_thigh :: real
  FR_calf :: real
  BL_hip :: real
  BL_thigh :: real
  BL_calf :: real
  BR_hip :: real
  BR_thigh :: real
  BR_calf :: real

text \<open>
  A queue entry. The \<^verbatim>\<open>type\<close> field is kept as the string the controller compares,
  so that an entry with an unknown type is a value of the model; an absent optional field
  is \<open>None\<close>.
\<close>

record robot_command =
  ctype :: string
  duration :: "real option"
  targetJoints :: "joint_state option"
  description :: "string option"

text \<open>The \<^verbatim>\<open>useRef\<close> cells and the \<^verbatim>\<open>useState\<close> cell of the robot controller.\<close>

record robot_state =
  position :: vec3
  rotation :: real
  verticalVel :: real
  cmdIndexRef :: nat
  cmdStartTimeRef :: real
  isExecutingRef :: bool
  lastQueueLengthRef :: nat
  renderedJoints :: joint_state

text \<open>
  What one invocation of the frame callback reads: whether the scene group is mounted
  (\<^verbatim>\<open>groupRef.current\<close>), the frame's \<^verbatim>\<open>delta\<close> and \<^verbatim>\<open>state.clock.elapsedTime\<close>,
  the props, the held keys (a missing key reads as false) and the tracked object positions
  in the insertion order of the shared map.
\<close>

record frame_input =
  groupMounted :: bool
  delta :: real
  elapsedTime :: real
  baseJoints :: joint_state
  commandQueue :: "robot_command list"
  keys :: "string \<Rightarrow> bool"
  objectTracker :: "(string \<times> vec3) list"

record sim_stats =
  stat_position :: vec3
  stat_velocity :: real
  stat_rotation :: real
  stat_isMoving :: bool
  stat_currentAction :: string

record frame_effects =
  updatedJoints :: "joint_state option"
  queueCleared :: bool
  updatedStats :: "sim_stats option"

text \<open>The local variables \<^verbatim>\<open>forward\<close>, \<^verbatim>\<open>turn\<close>, \<^verbatim>\<open>jump\<close>, \<^verbatim>\<open>activeDesc\<close>.\<close>

record intent =
  forward :: int
  turn :: int
  jump :: bool
  activeDesc :: string

definition initial_robot :: "joint_state \<Rightarrow> robot_state" where
  "initial_robot bj =
     \<lparr>position = \<lparr>vx = 0, vy = 2, vz = 0\<rparr>, rotation = 0, verticalVel = 0,
      cmdIndexRef = 0, cmdStartTimeRef = 0, isExecutingRef = False,
      lastQueueLengthRef = 0, renderedJoints = bj\<rparr>"

definition no_intent :: intent where
  "no_intent = \<lparr>forward = 0, turn = 0, jump = False, activeDesc = []\<rparr>"

definition no_effects :: frame_effects where
  "no_effects = \<lparr>updatedJoints = None, queueCleared = False, updatedStats = None\<rparr>"

subsection \<open>Queue admission (the effect on \<^verbatim>\<open>commandQueue\<close>)\<close>

definition queue_effect :: "robot_command list \<Rightarrow> robot_state \<Rightarrow> robot_state" where
  "queue_effect q s =
     (let s1 =
        (if length q > 0 \<and> length q \<noteq> lastQueueLengthRef s then
           s\<lparr>cmdIndexRef := 0, cmdStartTimeRef := 0, isExecutingRef := True\<rparr>
         else if length q = 0 then s\<lparr>isExecutingRef := False\<rparr>
         else s)
      in s1\<lparr>lastQueueLengthRef := length q\<rparr>)"

subsection \<open>Command execution\<close>

text \<open>\<^verbatim>\<open>cmd.duration || 1.0\<close>: an absent or zero duration reads as one second.\<close>

definition duration_or_default :: "robot_command \<Rightarrow> real" where
  "duration_or_default cmd =
     (case duration cmd of None \<Rightarrow> 1 | Some d \<Rightarrow> if d = 0 then 1 else d)"

text \<open>\<^verbatim>\<open>cmd.description || cmd.type\<close>: an absent or empty description reads as the type.\<close>

definition description_or_type :: "robot_command \<Rightarrow> string" where
  "description_or_type cmd =
     (case description cmd of None \<Rightarrow> ctype cmd | Some d \<Rightarrow> if d = [] then ctype cmd else d)"

text \<open>
  The outcome of the command block: either the callback returns at once (the
  \<^verbatim>\<open>SET_JOINTS\<close> branch, which hands the target pose to \<^verbatim>\<open>onUpdateJoints\<close>), or it goes
  on with the local variables set so far and a flag telling whether \<^verbatim>\<open>onClearQueue\<close>
  was called.
\<close>

datatype exec_result =
  Returned robot_state joint_state
  | Continue robot_state intent bool

definition timed_command :: "robot_command \<Rightarrow> real \<Rightarrow> robot_state \<Rightarrow> intent \<Rightarrow> robot_state \<times> intent" where
  "timed_command cmd now s i =
     (if ctype cmd \<noteq> ''SET_JOINTS'' \<and> ctype cmd \<noteq> ''JUMP'' then
        (let elapsed = now - cmdStartTimeRef s;
             dur = duration_or_default cmd;
             i1 = i\<lparr>activeDesc := description_or_type cmd\<rparr>
         in if elapsed < dur then
              (let i2 = (if ctype cmd = ''MOVE_FORWARD'' then i1\<lparr>forward := 1\<rparr> else i1);
                   i3 = (if ctype cmd = ''MOVE_BACKWARD'' then i2\<lparr>forward := - 1\<rparr> else i2);
                   i4 = (if ctype cmd = ''TURN_LEFT'' then i3\<lparr>turn := 1\<rparr> else i3);
                   i5 = (if ctype cmd = ''TURN_RIGHT'' then i4\<lparr>turn := - 1\<rparr> else i4)
               in (s, i5))
            else (s\<lparr>cmdIndexRef := cmdIndexRef s + 1, cmdStartTimeRef := 0\<rparr>, i1))
      else (s, i))"

definition command_execution :: "frame_input \<Rightarrow> robot_state \<Rightarrow> exec_result" where
  "command_execution inp s =
     (if isExecutingRef s \<and> cmdIndexRef s < length (commandQueue inp) then
        (let cmd = commandQueue inp ! cmdIndexRef s;
             now = elapsedTime inp
         in if cmdStartTimeRef s = 0 then
              (let s1 = s\<lparr>cmdStartTimeRef := now\<rparr>
               in if ctype cmd = ''SET_JOINTS'' \<and> targetJoints cmd \<noteq> None then
                    Returned (s1\<lparr>cmdIndexRef := cmdIndexRef s1 + 1, cmdStartTimeRef := 0\<rparr>)
                             (the (targetJoints cmd))
                  else if ctype cmd = ''JUMP'' then
                    (case timed_command cmd now
                            (s1\<lparr>cmdIndexRef := cmdIndexRef s1 + 1, cmdStartTimeRef := 0\<rparr>)
                            (no_intent\<lparr>jump := True\<rparr>) of
                       (s2, i) \<Rightarrow> Continue s2 i False)
                  else
                    (case timed_command cmd now s1 no_intent of
                       (s2, i) \<Rightarrow> Continue s2 i False))
            else
              (case timed_command cmd now s no_intent of
                 (s2, i) \<Rightarrow> Continue s2 i False))
      else if isExecutingRef s \<and> cmdIndexRef s \<ge> length (commandQueue inp) then
        Continue (s\<lparr>isExecutingRef := False\<rparr>) no_intent True
      else Continue s no_intent False)"

text \<open>The keyboard block, read only when no queue is executing.\<close>

definition keyboard_input :: "(string \<Rightarrow> bool) \<Rightarrow> robot_state \<Rightarrow> intent \<Rightarrow> intent" where
  "keyboard_input k s i =
     (if \<not> isExecutingRef s then
        (let i1 = (if k ''KeyW'' \<or> k ''ArrowUp'' then i\<lparr>forward := 1\<rparr> else i);
             i2 = (if k ''KeyS'' \<or> k ''ArrowDown'' then i1\<lparr>forward := - 1\<rparr> else i1);
             i3 = (if k ''KeyA'' \<or> k ''ArrowLeft'' then i2\<lparr>turn := 1\<rparr> else i2);
             i4 = (if k ''KeyD'' \<or> k ''ArrowRight'' then i3\<lparr>turn := - 1\<rparr> else i3);
             i5 = (if k ''KeyJ'' then i4\<lparr>jump := True\<rparr> else i4)
         in i5)
      else i)"

subsection \<open>Physics update\<close>

text \<open>
  The loop over the tracked positions: it stops at the first object that is both within
  the planar collision distance of the candidate and within 0.5 vertically of the robot.
\<close>

fun collision_loop :: "real \<Rightarrow> real \<Rightarrow> real \<Rightarrow> vec3 list \<Rightarrow> bool" where
  "collision_loop nextX nextZ robotY [] = False"
| "collision_loop nextX nextZ robotY (objPos # rest) =
     (let dx = nextX - vx objPos;
          dz = nextZ - vz objPos;
          distSq = dx * dx + dz * dz
      in if distSq < COLLISION_DIST ^ 2 then
           (let yDiff = \<bar>robotY - vy objPos\<bar>
            in if yDiff < 5 / 10 then True
               else collision_loop nextX nextZ robotY rest)
         else collision_loop nextX nextZ robotY rest)"

definition yaw_update :: "real \<Rightarrow> intent \<Rightarrow> robot_state \<Rightarrow> robot_state" where
  "yaw_update dt i s =
     (if turn i \<noteq> 0 then s\<lparr>rotation := rotation s + real_of_int (turn i) * ROT_SPEED * dt\<rparr>
      else s)"

definition horizontal_update :: "real \<Rightarrow> vec3 list \<Rightarrow> intent \<Rightarrow> robot_state \<Rightarrow> robot_state" where
  "horizontal_update dt objs i s =
     (if forward i \<noteq> 0 then
        (let dirX = sin (rotation s);
             dirZ = cos (rotation s);
             moveDist = real_of_int (forward i) * MOVE_SPEED * dt;
             nextX = vx (position s) + dirX * moveDist;
             nextZ = vz (position s) + dirZ * moveDist;
             collision = collision_loop nextX nextZ (vy (position s)) objs
         in if \<not> collision then s\<lparr>position := (position s)\<lparr>vx := nextX, vz := nextZ\<rparr>\<rparr>
            else s)
      else s)"

definition vertical_update :: "real \<Rightarrow> intent \<Rightarrow> robot_state \<Rightarrow> robot_state" where
  "vertical_update dt i s =
     (let onGround = vy (position s) \<le> GROUND_Y + 1 / 100;
          s1 = (if jump i \<and> onGround then s\<lparr>verticalVel := JUMP_FORCE\<rparr> else s);
          s2 = s1\<lparr>verticalVel := verticalVel s1 - GRAVITY * dt\<rparr>;
          s3 = s2\<lparr>position := (position s2)\<lparr>vy := vy (position s2) + verticalVel s2 * dt\<rparr>\<rparr>
      in if vy (position s3) < GROUND_Y then
           s3\<lparr>position := (position s3)\<lparr>vy := GROUND_Y\<rparr>, verticalVel := 0\<rparr>
         else s3)"

definition physics_update :: "frame_input \<Rightarrow> intent \<Rightarrow> robot_state \<Rightarrow> robot_state" where
  "physics_update inp i s =
     vertical_update (delta inp) i
       (horizontal_update (delta inp) (map snd (objectTracker inp)) i
          (yaw_update (delta inp) i s))"

subsection \<open>Animation update\<close>

definition gait_overlay :: "joint_state \<Rightarrow> real \<Rightarrow> bool \<Rightarrow> real \<Rightarrow> joint_state" where
  "gait_overlay base y isMoving time =
     (let isInAir = y > GROUND_Y + 1 / 10
      in if isInAir then
           base\<lparr>FL_thigh := 8 / 10, FL_calf := - (18 / 10),
                FR_thigh := 8 / 10, FR_calf := - (18 / 10),
                BL_thigh := 8 / 10, BL_calf := - (18 / 10),
                BR_thigh := 8 / 10, BR_calf := - (18 / 10)\<rparr>
         else if isMoving then
           (let p1 = sin (time * GAIT_FREQ);
                p2 = sin (time * GAIT_FREQ + pi);
                l1 = max 0 p1 * (5 / 10);
                l2 = max 0 p2 * (5 / 10)
            in base\<lparr>FL_thigh := FL_thigh base + p1 * GAIT_AMP,
                    BR_thigh := BR_thigh base + p1 * GAIT_AMP,
                    FR_thigh := FR_thigh base + p2 * GAIT_AMP,
                    BL_thigh := BL_thigh base + p2 * GAIT_AMP,
                    FL_calf := FL_calf base - l1,
                    BR_calf := BR_calf base - l1,
                    FR_calf := FR_calf base - l2,
                    BL_calf := BL_calf base - l2\<rparr>)
         else base)"

definition is_moving :: "intent \<Rightarrow> bool" where
  "is_moving i = (forward i \<noteq> 0 \<or> turn i \<noteq> 0)"

definition animation_update :: "frame_input \<Rightarrow> intent \<Rightarrow> robot_state \<Rightarrow> robot_state" where
  "animation_update inp i s =
     s\<lparr>renderedJoints :=
         gait_overlay (baseJoints inp) (vy (position s)) (is_moving i) (elapsedTime inp)\<rparr>"

text \<open>
  The snapshot handed to \<^verbatim>\<open>onUpdateStats\<close>. The handler is an optional prop; the
  application always passes one, and the model takes it as present.
\<close>

definition telemetry :: "intent \<Rightarrow> robot_state \<Rightarrow> sim_stats" where
  "telemetry i s =
     \<lparr>stat_position = position s,
      stat_velocity = (if is_moving i then MOVE_SPEED else 0),
      stat_rotation = rotation s,
      stat_isMoving = is_moving i,
      stat_currentAction = activeDesc i\<rparr>"

subsection \<open>The frame callback of the robot controller\<close>

text \<open>
  A frame on which the scene group is not mounted does nothing. Otherwise the command
  block runs; unless it returns, the keyboard block, the physics update, the animation
  update and the telemetry follow.
\<close>

definition robot_frame :: "frame_input \<Rightarrow> robot_state \<Rightarrow> robot_state \<times> frame_effects" where
  "robot_frame inp s =
     (if \<not> groupMounted inp then (s, no_effects)
      else
        (case command_execution inp s of
           Returned s1 tj \<Rightarrow> (s1, no_effects\<lparr>updatedJoints := Some tj\<rparr>)
         | Continue s1 i0 cleared \<Rightarrow>
             (let i = keyboard_input (keys inp) s1 i0;
                  s2 = physics_update inp i s1;
                  s3 = animation_update inp i s2
              in (s3, \<lparr>updatedJoints = None, queueCleared = cleared,
                       updatedStats = Some (telemetry i s3)\<rparr>))))"

definition tick :: "frame_input \<Rightarrow> robot_state \<Rightarrow> robot_state" where
  "tick inp s = fst (robot_frame inp s)"

text \<open>
  The intent a frame resolves to, after the command block and the keyboard block; \<open>None\<close>
  when the callback returns before reaching the physics update.
\<close>

definition resolved_intent :: "frame_input \<Rightarrow> robot_state \<Rightarrow> intent option" where
  "resolved_intent inp s =
     (if \<not> groupMounted inp then None
      else
        (case command_execution inp s of
           Returned s1 tj \<Rightarrow> None
         | Continue s1 i0 cleared \<Rightarrow> Some (keyboard_input (keys inp) s1 i0)))"

text \<open>The controller's state after the command block of a frame that goes on.\<close>

definition after_commands :: "frame_input \<Rightarrow> robot_state \<Rightarrow> robot_state" where
  "after_commands inp s =
     (case command_execution inp s of
        Returned s1 tj \<Rightarrow> s1
      | Continue s1 i0 cleared \<Rightarrow> s1)"

subsection \<open>The frame callback of a falling object\<close>

text \<open>
  The \<^verbatim>\<open>useRef\<close> cells of a rigid body. The shared tracker stores the very vector the
  integrator mutates; the vector changes only in the two places below, each of which ends
  by publishing it, so storing a copy gives the same readings.
\<close>

record object_state =
  pos :: vec3
  velocity :: real

text \<open>\<^verbatim>\<open>Map.set\<close>: an existing key keeps its place, a new key goes last.\<close>

fun tracker_set :: "string \<Rightarrow> vec3 \<Rightarrow> (string \<times> vec3) list \<Rightarrow> (string \<times> vec3) list" where
  "tracker_set k v [] = [(k, v)]"
| "tracker_set k v ((k', v') # rest) =
     (if k = k' then (k, v) # rest else (k', v') # tracker_set k v rest)"

text \<open>The effect that runs when the parent hands over a (new) declared position.\<close>

definition object_sync ::
  "string \<Rightarrow> vec3 \<Rightarrow> (string \<times> vec3) list \<Rightarrow> object_state \<times> (string \<times> vec3) list" where
  "object_sync oid p tr = (\<lparr>pos = p, velocity = 0\<rparr>, tracker_set oid p tr)"

definition floor_collision :: "object_state \<Rightarrow> object_state" where
  "floor_collision ob =
     (if vy (pos ob) < 15 / 100 then
        (let o1 = ob\<lparr>pos := (pos ob)\<lparr>vy := 15 / 100\<rparr>\<rparr>;
             o2 = o1\<lparr>velocity := - velocity o1 * (4 / 10)\<rparr>
         in if \<bar>velocity o2\<bar> < 5 / 10 then o2\<lparr>velocity := 0\<rparr> else o2)
      else ob)"

definition integrates :: "object_state \<Rightarrow> bool" where
  "integrates ob = (vy (pos ob) > 1501 / 10000 \<or> \<bar>velocity ob\<bar> > 1 / 100)"

text \<open>The body of the integration branch: gravity, vertical move, floor collision.\<close>

definition integrate_step :: "real \<Rightarrow> object_state \<Rightarrow> object_state" where
  "integrate_step dt ob =
     (let o1 = ob\<lparr>velocity := velocity ob - GRAVITY * dt\<rparr>;
          o2 = o1\<lparr>pos := (pos o1)\<lparr>vy := vy (pos o1) + velocity o1 * dt\<rparr>\<rparr>
      in floor_collision o2)"

definition object_frame ::
  "bool \<Rightarrow> real \<Rightarrow> string \<Rightarrow> object_state \<times> (string \<times> vec3) list
     \<Rightarrow> object_state \<times> (string \<times> vec3) list" where
  "object_frame meshMounted dt oid st =
     (case st of (ob, tr) \<Rightarrow>
        if \<not> meshMounted then (ob, tr)
        else if integrates ob then
          (let o3 = integrate_step dt ob
           in (o3, tracker_set oid (pos o3) tr))
        else (ob, tr))"

text \<open>A run of frames of one object, one \<^verbatim>\<open>(mounted, delta)\<close> pair per frame.\<close>

fun object_run ::
  "string \<Rightarrow> (bool \<times> real) list \<Rightarrow> object_state \<times> (string \<times> vec3) list
     \<Rightarrow> object_state \<times> (string \<times> vec3) list" where
  "object_run oid [] st = st"
| "object_run oid ((m, dt) # fs) st = object_run oid fs (object_frame m dt oid st)"

subsection \<open>Runs of the robot controller\<close>

text \<open>
  Between two frames the parent may install a queue, which runs the admission effect.
  A run is a list of such events, applied from the left.
\<close>

datatype event = Frame frame_input | QueueInstalled "robot_command list"

fun step :: "event \<Rightarrow> robot_state \<Rightarrow> robot_state" where
  "step (Frame inp) s = tick inp s"
| "step (QueueInstalled q) s = queue_effect q s"

fun run :: "event list \<Rightarrow> robot_state \<Rightarrow> robot_state" where
  "run [] s = s"
| "run (e # es) s = run es (step e s)"

subsection \<open>Concrete scenarios\<close>

text \<open>Inputs and states on which the results below are evaluated.\<close>

definition stand_pose :: joint_state where
  "stand_pose =
     \<lparr>FL_hip = 0, FL_thigh = 1 / 2, FL_calf = - 1,
      FR_hip = 0, FR_thigh = 1 / 2, FR_calf = - 1,
      BL_hip = 0, BL_thigh = 1 / 2, BL_calf = - 1,
      BR_hip = 0, BR_thigh = 1 / 2, BR_calf = - 1\<rparr>"

definition sit_pose :: joint_state where
  "sit_pose =
     \<lparr>FL_hip = 0, FL_thigh = 0, FL_calf = - (1 / 2),
      FR_hip = 0, FR_thigh = 0, FR_calf = - (1 / 2),
      BL_hip = 0, BL_thigh = 3 / 2, BL_calf = - (5 / 2),
      BR_hip = 0, BR_thigh = 3 / 2, BR_calf = - (5 / 2)\<rparr>"

text \<open>The robot standing on the ground at the origin, facing +Z, no queue running.\<close>

definition grounded_robot :: robot_state where
  "grounded_robot =
     \<lparr>position = \<lparr>vx = 0, vy = 55 / 100, vz = 0\<rparr>, rotation = 0, verticalVel = 0,
      cmdIndexRef = 0, cmdStartTimeRef = 0, isExecutingRef = False,
      lastQueueLengthRef = 0, renderedJoints = stand_pose\<rparr>"

text \<open>A frame of a tenth of a second at clock time 1, no keys held, nothing tracked.\<close>

definition quiet_frame :: frame_input where
  "quiet_frame =
     \<lparr>groupMounted = True, delta = 1 / 10, elapsedTime = 1, baseJoints = stand_pose,
      commandQueue = [], keys = (\<lambda>k. False), objectTracker = []\<rparr>"

text \<open>A cube falling through the floor level, and a cube leaving the floor slowly.\<close>

definition falling_cube :: object_state where
  "falling_cube = \<lparr>pos = \<lparr>vx = 2, vy = 2 / 10, vz = 2\<rparr>, velocity = - 3\<rparr>"

definition hopping_cube :: object_state where
  "hopping_cube = \<lparr>pos = \<lparr>vx = 2, vy = 15 / 100, vz = 2\<rparr>, velocity = 1\<rparr>"

text \<open>A cube on the floor moving up at 4/7, the speed a bounce at ten frames a second keeps.\<close>

definition bouncing_cube :: object_state where
  "bouncing_cube = \<lparr>pos = \<lparr>vx = 2, vy = 15 / 100, vz = 2\<rparr>, velocity = 4 / 7\<rparr>"

definition command :: "string \<Rightarrow> robot_command" where
  "command ty = \<lparr>ctype = ty, duration = None, targetJoints = None, description = None\<rparr>"

section \<open>Properties\<close>

subsection \<open>Frame lemmas\<close>

lemma timed_command_frame:
  "timed_command cmd now s i = (s1, i1) \<Longrightarrow>
     position s1 = position s \<and> rotation s1 = rotation s \<and> verticalVel s1 = verticalVel s \<and>
     renderedJoints s1 = renderedJoints s \<and> isExecutingRef s1 = isExecutingRef s \<and>
     lastQueueLengthRef s1 = lastQueueLengthRef s"
  by (auto simp: timed_command_def Let_def split: if_splits)

lemma command_execution_Continue_frame:
  "command_execution inp s = Continue s1 i c \<Longrightarrow>
     position s1 = position s \<and> rotation s1 = rotation s \<and> verticalVel s1 = verticalVel s \<and>
     renderedJoints s1 = renderedJoints s \<and> lastQueueLengthRef s1 = lastQueueLengthRef s"
  by (auto simp: command_execution_def Let_def split: if_splits prod.splits
      dest!: timed_command_frame)

lemma command_execution_Returned_frame:
  "command_execution inp s = Returned s1 tj \<Longrightarrow>
     position s1 = position s \<and> rotation s1 = rotation s \<and> verticalVel s1 = verticalVel s \<and>
     renderedJoints s1 = renderedJoints s \<and> lastQueueLengthRef s1 = lastQueueLengthRef s \<and>
     isExecutingRef s1 = isExecutingRef s"
  by (auto simp: command_execution_def Let_def split: if_splits prod.splits)

lemma command_execution_executing:
  "isExecutingRef s \<Longrightarrow> cmdIndexRef s < length (commandQueue inp) \<Longrightarrow>
   command_execution inp s = Continue s1 i c \<Longrightarrow> isExecutingRef s1 \<and> \<not> c"
  by (auto simp: command_execution_def Let_def split: if_splits prod.splits
      dest!: timed_command_frame)

lemma command_execution_keys [simp]:
  "command_execution (inp\<lparr>keys := k\<rparr>) s = command_execution inp s"
  by (simp add: command_execution_def)

lemma collision_loop_iff:
  "collision_loop nextX nextZ robotY objs \<longleftrightarrow>
     (\<exists>p \<in> set objs. (nextX - vx p)\<^sup>2 + (nextZ - vz p)\<^sup>2 < COLLISION_DIST\<^sup>2 \<and>
        \<bar>robotY - vy p\<bar> < 1 / 2)"
  by (induction objs) (auto simp: Let_def power2_eq_square)

lemma yaw_update_fields:
  "rotation (yaw_update dt i s) = rotation s + real_of_int (turn i) * ROT_SPEED * dt"
  "position (yaw_update dt i s) = position s"
  "verticalVel (yaw_update dt i s) = verticalVel s"
  by (simp_all add: yaw_update_def)

lemma horizontal_update_fields:
  "rotation (horizontal_update dt objs i s) = rotation s"
  "verticalVel (horizontal_update dt objs i s) = verticalVel s"
  "vy (position (horizontal_update dt objs i s)) = vy (position s)"
  by (simp_all add: horizontal_update_def Let_def)

lemma vertical_update_fields:
  "rotation (vertical_update dt i s) = rotation s"
  "vx (position (vertical_update dt i s)) = vx (position s)"
  "vz (position (vertical_update dt i s)) = vz (position s)"
  by (simp_all add: vertical_update_def Let_def)

lemma vertical_update_ground: "GROUND_Y \<le> vy (position (vertical_update dt i s))"
  by (simp add: vertical_update_def Let_def)

lemma tick_resolved:
  "resolved_intent inp s = Some i \<Longrightarrow>
     tick inp s = animation_update inp i (physics_update inp i (after_commands inp s))"
  by (auto simp: resolved_intent_def tick_def robot_frame_def after_commands_def Let_def
      split: if_splits exec_result.splits)

lemma after_commands_frame:
  "position (after_commands inp s) = position s"
  "rotation (after_commands inp s) = rotation s"
  "verticalVel (after_commands inp s) = verticalVel s"
  "renderedJoints (after_commands inp s) = renderedJoints s"
  by (auto simp: after_commands_def split: exec_result.splits
      dest: command_execution_Continue_frame command_execution_Returned_frame)

lemma tick_unresolved:
  "resolved_intent inp s = None \<Longrightarrow>
     position (tick inp s) = position s \<and> rotation (tick inp s) = rotation s \<and>
     verticalVel (tick inp s) = verticalVel s \<and> renderedJoints (tick inp s) = renderedJoints s"
  by (auto simp: resolved_intent_def tick_def robot_frame_def
      split: if_splits exec_result.splits dest: command_execution_Returned_frame)

lemma animation_update_fields:
  "position (animation_update inp i s) = position s"
  "rotation (animation_update inp i s) = rotation s"
  "verticalVel (animation_update inp i s) = verticalVel s"
  by (simp_all add: animation_update_def)

subsection \<open>Queue admission\<close>

text \<open>
  Claim C3. Installing a queue restarts execution (command index 0, start time 0,
  executing) exactly when the new length is positive and differs from the last recorded
  length. In every other case the command index and the start time are left as they were;
  in particular a queue of the same length as the last one does not reset the command
  index. Installing an empty queue forces the executing flag to false. The recorded length
  becomes the new length.
\<close>

theorem queue_restart_rule:
  "(0 < length q \<and> length q \<noteq> lastQueueLengthRef s \<longrightarrow>
      cmdIndexRef (queue_effect q s) = 0 \<and> cmdStartTimeRef (queue_effect q s) = 0 \<and>
      isExecutingRef (queue_effect q s)) \<and>
   (\<not> (0 < length q \<and> length q \<noteq> lastQueueLengthRef s) \<longrightarrow>
      cmdIndexRef (queue_effect q s) = cmdIndexRef s \<and>
      cmdStartTimeRef (queue_effect q s) = cmdStartTimeRef s \<and>
      isExecutingRef (queue_effect q s) = (isExecutingRef s \<and> q \<noteq> [])) \<and>
   (length q = lastQueueLengthRef s \<longrightarrow> cmdIndexRef (queue_effect q s) = cmdIndexRef s) \<and>
   (q = [] \<longrightarrow> \<not> isExecutingRef (queue_effect q s)) \<and>
   lastQueueLengthRef (queue_effect q s) = length q"
  by (auto simp: queue_effect_def Let_def)

text \<open>
  The rule on a controller at index 1 of a two-entry queue: a same-length queue keeps the
  index, a shorter non-empty queue restarts, an empty queue stops execution.
\<close>

theorem queue_restart_rule_witness:
  "cmdIndexRef (queue_effect [command ''WAIT'', command ''JUMP'']
       (grounded_robot\<lparr>cmdIndexRef := 1, isExecutingRef := True, lastQueueLengthRef := 2\<rparr>)) = 1 \<and>
   cmdIndexRef (queue_effect [command ''WAIT'']
       (grounded_robot\<lparr>cmdIndexRef := 1, isExecutingRef := True, lastQueueLengthRef := 2\<rparr>)) = 0 \<and>
   isExecutingRef (queue_effect [command ''WAIT'']
       (grounded_robot\<lparr>cmdIndexRef := 1, isExecutingRef := False, lastQueueLengthRef := 2\<rparr>)) \<and>
   \<not> isExecutingRef (queue_effect []
       (grounded_robot\<lparr>cmdIndexRef := 1, isExecutingRef := True, lastQueueLengthRef := 2\<rparr>))"
  using queue_restart_rule [of "[command ''WAIT'', command ''JUMP'']"
      "grounded_robot\<lparr>cmdIndexRef := 1, isExecutingRef := True, lastQueueLengthRef := 2\<rparr>"]
    queue_restart_rule [of "[command ''WAIT'']"
      "grounded_robot\<lparr>cmdIndexRef := 1, isExecutingRef := True, lastQueueLengthRef := 2\<rparr>"]
    queue_restart_rule [of "[command ''WAIT'']"
      "grounded_robot\<lparr>cmdIndexRef := 1, isExecutingRef := False, lastQueueLengthRef := 2\<rparr>"]
    queue_restart_rule [of "[]"
      "grounded_robot\<lparr>cmdIndexRef := 1, isExecutingRef := True, lastQueueLengthRef := 2\<rparr>"]
  by (simp add: grounded_robot_def)

subsection \<open>Collision-gated horizontal movement\<close>

text \<open>
  Claim C2. On a frame whose resolved intent has a nonzero forward component, let the
  candidate (x, z) be the current one displaced by \<open>forward * MOVE_SPEED * delta\<close> along the
  heading after this frame's turn. If some tracked object has squared planar distance to
  the candidate strictly below \<open>(ROBOT_COLLISION_RADIUS + OBJECT_COLLISION_RADIUS)\<^sup>2\<close> and
  vertical separation from the robot strictly below 0.5, then x and z are unchanged by the
  frame; otherwise x and z become the candidate. The comparison is strict, so an object at
  exactly the threshold distance does not block.
\<close>

theorem horizontal_move_commit_iff:
  assumes "resolved_intent inp s = Some i" and "forward i \<noteq> 0"
    and "yaw = rotation s + real_of_int (turn i) * ROT_SPEED * delta inp"
    and "nextX = vx (position s) + sin yaw * (real_of_int (forward i) * MOVE_SPEED * delta inp)"
    and "nextZ = vz (position s) + cos yaw * (real_of_int (forward i) * MOVE_SPEED * delta inp)"
    and "blocked = (\<exists>p \<in> snd ` set (objectTracker inp).
           (nextX - vx p)\<^sup>2 + (nextZ - vz p)\<^sup>2
              < (ROBOT_COLLISION_RADIUS + OBJECT_COLLISION_RADIUS)\<^sup>2 \<and>
           \<bar>vy (position s) - vy p\<bar> < 1 / 2)"
  shows "(if blocked
          then vx (position (tick inp s)) = vx (position s) \<and>
               vz (position (tick inp s)) = vz (position s)
          else vx (position (tick inp s)) = nextX \<and> vz (position (tick inp s)) = nextZ)"
proof -
  let ?s1 = "yaw_update (delta inp) i (after_commands inp s)"
  have t: "tick inp s = animation_update inp i (vertical_update (delta inp) i
             (horizontal_update (delta inp) (map snd (objectTracker inp)) i ?s1))"
    using assms(1) by (simp add: tick_resolved physics_update_def)
  have r: "rotation ?s1 = yaw" "position ?s1 = position s"
    using assms(3) by (simp_all add: yaw_update_fields after_commands_frame)
  have c: "collision_loop nextX nextZ (vy (position s)) (map snd (objectTracker inp)) = blocked"
    using assms(6) by (simp add: collision_loop_iff COLLISION_DIST_def)
  show ?thesis
    using assms(2,4,5) c r
    by (simp add: t animation_update_fields vertical_update_fields horizontal_update_def Let_def)
qed

text \<open>
  Walking forward by key for a tenth of a second from the origin: a cube whose centre is
  exactly 0.6 from the candidate does not block the move, a cube 0.01 nearer does.
\<close>

theorem horizontal_move_commit_iff_witness:
  "resolved_intent
       (quiet_frame\<lparr>keys := (\<lambda>k. k = ''KeyW''),
          objectTracker := [(''cube_red'', \<lparr>vx = 0, vy = 55 / 100, vz = 75 / 100\<rparr>)]\<rparr>)
       grounded_robot
     = Some \<lparr>forward = 1, turn = 0, jump = False, activeDesc = []\<rparr> \<and>
   vx (position (tick
       (quiet_frame\<lparr>keys := (\<lambda>k. k = ''KeyW''),
          objectTracker := [(''cube_red'', \<lparr>vx = 0, vy = 55 / 100, vz = 75 / 100\<rparr>)]\<rparr>)
       grounded_robot)) = 0 \<and>
   vz (position (tick
       (quiet_frame\<lparr>keys := (\<lambda>k. k = ''KeyW''),
          objectTracker := [(''cube_red'', \<lparr>vx = 0, vy = 55 / 100, vz = 75 / 100\<rparr>)]\<rparr>)
       grounded_robot)) = 15 / 100 \<and>
   vz (position (tick
       (quiet_frame\<lparr>keys := (\<lambda>k. k = ''KeyW''),
          objectTracker := [(''cube_red'', \<lparr>vx = 0, vy = 55 / 100, vz = 74 / 100\<rparr>)]\<rparr>)
       grounded_robot)) = 0"
proof -
  let ?inp = "\<lambda>z. quiet_frame\<lparr>keys := (\<lambda>k. k = ''KeyW''),
          objectTracker := [(''cube_red'', \<lparr>vx = 0, vy = 55 / 100, vz = z\<rparr>)]\<rparr>"
  let ?i = "\<lparr>forward = 1, turn = 0, jump = False, activeDesc = []\<rparr>"
  have ri: "resolved_intent (?inp z) grounded_robot = Some ?i" for z
    by (simp add: resolved_intent_def quiet_frame_def grounded_robot_def command_execution_def
        keyboard_input_def no_intent_def)
  have a: "vx (position (tick (?inp (75 / 100)) grounded_robot)) = 0 \<and>
           vz (position (tick (?inp (75 / 100)) grounded_robot)) = 15 / 100"
    using horizontal_move_commit_iff [OF ri [of "75 / 100"], of 0 0 "15 / 100" False]
    by (simp add: quiet_frame_def grounded_robot_def constants_defs power2_eq_square)
  have b: "vz (position (tick (?inp (74 / 100)) grounded_robot)) = 0"
    using horizontal_move_commit_iff [OF ri [of "74 / 100"], of 0 0 "15 / 100" True]
    by (simp add: quiet_frame_def grounded_robot_def constants_defs power2_eq_square)
  show ?thesis using ri a b by simp
qed

subsection \<open>Frames without intent\<close>



subsection \<open>The keyboard does not interfere with a running queue\<close>

text \<open>
  Claim C9. On a frame where the controller is executing and the command index is within
  the queue, the held keys have no effect: two executions of the frame that differ only in
  the held keys end in the same controller state (position, yaw, vertical velocity, command
  state, rendered pose), emit the same effects and resolve to the same intent.
\<close>

theorem keys_ignored_while_executing:
  assumes "isExecutingRef s" and "cmdIndexRef s < length (commandQueue inp)"
  shows "robot_frame (inp\<lparr>keys := k1\<rparr>) s = robot_frame (inp\<lparr>keys := k2\<rparr>) s \<and>
         resolved_intent (inp\<lparr>keys := k1\<rparr>) s = resolved_intent (inp\<lparr>keys := k2\<rparr>) s"
proof -
  have kb: "keyboard_input k s1 i = i" if "command_execution inp s = Continue s1 i c" for k s1 i c
    using command_execution_executing [OF assms that] by (simp add: keyboard_input_def)
  have ph: "physics_update (inp\<lparr>keys := k\<rparr>) = physics_update inp" for k
    by (intro ext) (simp add: physics_update_def)
  have an: "animation_update (inp\<lparr>keys := k\<rparr>) = animation_update inp" for k
    by (intro ext) (simp add: animation_update_def)
  have "robot_frame (inp\<lparr>keys := k\<rparr>) s = robot_frame (inp\<lparr>keys := (\<lambda>_. False)\<rparr>) s" for k
    by (cases "command_execution inp s") (simp_all add: robot_frame_def ph an kb)
  moreover
  have "resolved_intent (inp\<lparr>keys := k\<rparr>) s = resolved_intent (inp\<lparr>keys := (\<lambda>_. False)\<rparr>) s" for k
    by (cases "command_execution inp s") (simp_all add: resolved_intent_def kb)
  ultimately show ?thesis by metis
qed

text \<open>
  While \<^verbatim>\<open>MOVE_FORWARD\<close> runs, holding the S key changes nothing: the intent stays forward.
\<close>

theorem keys_ignored_while_executing_witness:
  "robot_frame (quiet_frame\<lparr>commandQueue := [command ''MOVE_FORWARD''], keys := (\<lambda>k. False)\<rparr>)
       (grounded_robot\<lparr>isExecutingRef := True\<rparr>)
     = robot_frame
         (quiet_frame\<lparr>commandQueue := [command ''MOVE_FORWARD''], keys := (\<lambda>k. k = ''KeyS'')\<rparr>)
         (grounded_robot\<lparr>isExecutingRef := True\<rparr>) \<and>
   resolved_intent
       (quiet_frame\<lparr>commandQueue := [command ''MOVE_FORWARD''], keys := (\<lambda>k. k = ''KeyS'')\<rparr>)
       (grounded_robot\<lparr>isExecutingRef := True\<rparr>)
     = Some \<lparr>forward = 1, turn = 0, jump = False, activeDesc = ''MOVE_FORWARD''\<rparr>"
proof -
  let ?inp = "quiet_frame\<lparr>commandQueue := [command ''MOVE_FORWARD'']\<rparr>"
  let ?s = "grounded_robot\<lparr>isExecutingRef := True\<rparr>"
  have e: "isExecutingRef ?s" by simp
  have b: "cmdIndexRef ?s < length (commandQueue ?inp)"
    by (simp add: grounded_robot_def)
  have ri: "resolved_intent (?inp\<lparr>keys := (\<lambda>k. k = ''KeyS'')\<rparr>) ?s
              = Some \<lparr>forward = 1, turn = 0, jump = False, activeDesc = ''MOVE_FORWARD''\<rparr>"
    by (simp add: resolved_intent_def quiet_frame_def grounded_robot_def command_execution_def
        timed_command_def duration_or_default_def description_or_type_def command_def
        keyboard_input_def no_intent_def Let_def)
  show ?thesis
    using keys_ignored_while_executing [OF e b, of "\<lambda>k. False" "\<lambda>k. k = ''KeyS''"] ri
    by simp
qed

subsection \<open>The robot never ends a frame below the ground\<close>

lemma tick_above_ground:
  "GROUND_Y \<le> vy (position s) \<Longrightarrow> GROUND_Y \<le> vy (position (tick inp s))"
proof (cases "resolved_intent inp s")
  case None
  assume "GROUND_Y \<le> vy (position s)"
  then show ?thesis using tick_unresolved [OF None] by simp
next
  case (Some i)
  show ?thesis
    by (simp add: tick_resolved [OF Some] animation_update_fields physics_update_def
        vertical_update_ground)
qed

lemma step_above_ground:
  "GROUND_Y \<le> vy (position s) \<Longrightarrow> GROUND_Y \<le> vy (position (step e s))"
  by (cases e) (simp_all add: tick_above_ground queue_effect_def Let_def)

lemma run_above_ground:
  "GROUND_Y \<le> vy (position s) \<Longrightarrow> GROUND_Y \<le> vy (position (run es s))"
  by (induction es arbitrary: s) (simp_all add: step_above_ground)

text \<open>
  Claim C10. A frame started with \<open>position.y \<ge> GROUND_Y\<close> ends with
  \<open>position.y \<ge> GROUND_Y\<close>; so does any run of frames and queue installations; and every run
  from the initial state (height 2) ends at or above \<open>GROUND_Y\<close>.
\<close>

theorem never_below_ground:
  "(GROUND_Y \<le> vy (position s) \<longrightarrow> GROUND_Y \<le> vy (position (tick inp s))) \<and>
   (GROUND_Y \<le> vy (position s) \<longrightarrow> GROUND_Y \<le> vy (position (run es s))) \<and>
   GROUND_Y \<le> vy (position (run es (initial_robot bj)))"
proof -
  have "GROUND_Y \<le> vy (position (initial_robot bj))"
    by (simp add: initial_robot_def GROUND_Y_def)
  then show ?thesis
    using tick_above_ground run_above_ground by blast
qed

text \<open>
  The standing robot stays at or above the ground through a jump by key and through a
  queued jump followed by a one-second frame, which brings it back down onto the clamp.
\<close>

theorem never_below_ground_witness:
  "GROUND_Y \<le> vy (position grounded_robot) \<and>
   GROUND_Y \<le> vy (position (tick (quiet_frame\<lparr>keys := (\<lambda>k. k = ''KeyJ'')\<rparr>) grounded_robot)) \<and>
   GROUND_Y \<le> vy (position (run
       [QueueInstalled [command ''JUMP''],
        Frame (quiet_frame\<lparr>commandQueue := [command ''JUMP'']\<rparr>),
        Frame (quiet_frame\<lparr>commandQueue := [command ''JUMP''], delta := 1\<rparr>)]
       grounded_robot))"
proof -
  have g: "GROUND_Y \<le> vy (position grounded_robot)"
    by (simp add: grounded_robot_def GROUND_Y_def)
  show ?thesis
    using g never_below_ground [of grounded_robot "quiet_frame\<lparr>keys := (\<lambda>k. k = ''KeyJ'')\<rparr>"
        "[QueueInstalled [command ''JUMP''],
          Frame (quiet_frame\<lparr>commandQueue := [command ''JUMP'']\<rparr>),
          Frame (quiet_frame\<lparr>commandQueue := [command ''JUMP''], delta := 1\<rparr>)]" stand_pose]
    by blast
qed

subsection \<open>The gait overlay\<close>

lemma timed_command_rendered:
  "timed_command cmd now (s\<lparr>renderedJoints := r\<rparr>) i =
     (fst (timed_command cmd now s i)\<lparr>renderedJoints := r\<rparr>, snd (timed_command cmd now s i))"
  by (simp add: timed_command_def Let_def)

lemma swap_rendered:
  "s\<lparr>renderedJoints := r, cmdStartTimeRef := x\<rparr> = s\<lparr>cmdStartTimeRef := x, renderedJoints := r\<rparr>"
  "s\<lparr>renderedJoints := r, cmdIndexRef := n, cmdStartTimeRef := x\<rparr>
     = s\<lparr>cmdIndexRef := n, cmdStartTimeRef := x, renderedJoints := r\<rparr>"
  "s\<lparr>renderedJoints := r, isExecutingRef := e\<rparr> = s\<lparr>isExecutingRef := e, renderedJoints := r\<rparr>"
  by simp_all

lemma command_execution_rendered:
  "command_execution inp (s\<lparr>renderedJoints := r\<rparr>) =
     (case command_execution inp s of
        Returned s1 tj \<Rightarrow> Returned (s1\<lparr>renderedJoints := r\<rparr>) tj
      | Continue s1 i c \<Rightarrow> Continue (s1\<lparr>renderedJoints := r\<rparr>) i c)"
  by (auto simp: command_execution_def Let_def swap_rendered timed_command_rendered split_beta)

lemma yaw_update_rendered:
  "yaw_update dt i (s\<lparr>renderedJoints := r\<rparr>) = (yaw_update dt i s)\<lparr>renderedJoints := r\<rparr>"
  by (simp add: yaw_update_def)

lemma horizontal_update_rendered:
  "horizontal_update dt objs i (s\<lparr>renderedJoints := r\<rparr>)
     = (horizontal_update dt objs i s)\<lparr>renderedJoints := r\<rparr>"
  by (simp add: horizontal_update_def Let_def)

lemma vertical_update_rendered:
  "vertical_update dt i (s\<lparr>renderedJoints := r\<rparr>) = (vertical_update dt i s)\<lparr>renderedJoints := r\<rparr>"
  by (simp add: vertical_update_def Let_def)

lemma physics_update_rendered:
  "physics_update inp i (s\<lparr>renderedJoints := r\<rparr>) = (physics_update inp i s)\<lparr>renderedJoints := r\<rparr>"
  by (simp only: physics_update_def yaw_update_rendered horizontal_update_rendered
      vertical_update_rendered)

lemma animation_update_rendered:
  "animation_update inp i (s\<lparr>renderedJoints := r\<rparr>) = animation_update inp i s"
  by (simp add: animation_update_def)

lemma resolved_intent_SomeD:
  "resolved_intent inp s = Some i \<Longrightarrow>
     groupMounted inp \<and>
     (\<exists>s1 i0 c. command_execution inp s = Continue s1 i0 c \<and> i = keyboard_input (keys inp) s1 i0)"
  by (cases "command_execution inp s") (simp_all add: resolved_intent_def split: if_splits)

lemma tick_rendered_independent:
  assumes "resolved_intent inp s = Some i"
  shows "tick inp (s\<lparr>renderedJoints := r\<rparr>) = tick inp s"
proof -
  from resolved_intent_SomeD [OF assms] obtain s1 i0 c where
    m: "groupMounted inp" and ce: "command_execution inp s = Continue s1 i0 c"
    by blast
  have ce': "command_execution inp (s\<lparr>renderedJoints := r\<rparr>)
               = Continue (s1\<lparr>renderedJoints := r\<rparr>) i0 c"
    by (simp add: command_execution_rendered ce)
  have kb: "keyboard_input (keys inp) (s1\<lparr>renderedJoints := r\<rparr>) i0
              = keyboard_input (keys inp) s1 i0"
    by (simp add: keyboard_input_def)
  show ?thesis
    unfolding tick_def robot_frame_def ce ce' Let_def
    using m by (simp add: kb physics_update_rendered animation_update_rendered)
qed

lemma resolved_no_joint_update:
  assumes "resolved_intent inp s = Some i"
  shows "updatedJoints (snd (robot_frame inp s)) = None"
proof -
  from resolved_intent_SomeD [OF assms] obtain s1 i0 c where
    m: "groupMounted inp" and ce: "command_execution inp s = Continue s1 i0 c"
    by blast
  show ?thesis
    unfolding robot_frame_def ce Let_def using m by simp
qed

text \<open>
  On every frame that reaches its animation update, the rendered pose is computed from the
  base pose of that frame: if the robot is airborne after the physics update
  (\<open>y > GROUND_Y + 0.1\<close>) every thigh is 0.8 and every calf is -1.8; otherwise, if the intent
  moves or turns, legs FL and BR take phase \<open>p1 = sin (t * GAIT_FREQ)\<close> and legs FR and BL
  take phase \<open>p2 = sin (t * GAIT_FREQ + pi)\<close>, each thigh being the base thigh plus
  \<open>p * GAIT_AMP\<close> and each calf the base calf minus \<open>max 0 p * 0.5\<close>; otherwise the rendered
  pose is the base pose. Hips are always those of the base pose. The previously rendered
  pose has no influence on the frame, and the frame does not ask the parent to change the
  base pose.
\<close>

lemma gait_overlay_fresh:
  assumes "resolved_intent inp s = Some i"
    and "b = baseJoints inp" and "y = vy (position (tick inp s))"
    and "p1 = sin (elapsedTime inp * GAIT_FREQ)"
    and "p2 = sin (elapsedTime inp * GAIT_FREQ + pi)"
  shows "renderedJoints (tick inp s) =
           (if y > GROUND_Y + 1 / 10 then
              \<lparr>FL_hip = FL_hip b, FL_thigh = 8 / 10, FL_calf = - (18 / 10),
               FR_hip = FR_hip b, FR_thigh = 8 / 10, FR_calf = - (18 / 10),
               BL_hip = BL_hip b, BL_thigh = 8 / 10, BL_calf = - (18 / 10),
               BR_hip = BR_hip b, BR_thigh = 8 / 10, BR_calf = - (18 / 10)\<rparr>
            else if forward i \<noteq> 0 \<or> turn i \<noteq> 0 then
              \<lparr>FL_hip = FL_hip b, FL_thigh = FL_thigh b + p1 * GAIT_AMP,
                 FL_calf = FL_calf b - max 0 p1 * (1 / 2),
               FR_hip = FR_hip b, FR_thigh = FR_thigh b + p2 * GAIT_AMP,
                 FR_calf = FR_calf b - max 0 p2 * (1 / 2),
               BL_hip = BL_hip b, BL_thigh = BL_thigh b + p2 * GAIT_AMP,
                 BL_calf = BL_calf b - max 0 p2 * (1 / 2),
               BR_hip = BR_hip b, BR_thigh = BR_thigh b + p1 * GAIT_AMP,
                 BR_calf = BR_calf b - max 0 p1 * (1 / 2)\<rparr>
            else b) \<and>
         tick inp (s\<lparr>renderedJoints := r\<rparr>) = tick inp s \<and>
         updatedJoints (snd (robot_frame inp s)) = None"
proof -
  let ?s2 = "physics_update inp i (after_commands inp s)"
  have t: "tick inp s = animation_update inp i ?s2"
    using assms(1) by (rule tick_resolved)
  have y: "vy (position ?s2) = y"
    using assms(3) by (simp add: t animation_update_fields)
  have g: "renderedJoints (tick inp s) =
             gait_overlay b y (forward i \<noteq> 0 \<or> turn i \<noteq> 0) (elapsedTime inp)"
    using assms(2) y by (simp add: t animation_update_def is_moving_def)
  have ov: "gait_overlay b y m (elapsedTime inp) =
           (if y > GROUND_Y + 1 / 10 then
              \<lparr>FL_hip = FL_hip b, FL_thigh = 8 / 10, FL_calf = - (18 / 10),
               FR_hip = FR_hip b, FR_thigh = 8 / 10, FR_calf = - (18 / 10),
               BL_hip = BL_hip b, BL_thigh = 8 / 10, BL_calf = - (18 / 10),
               BR_hip = BR_hip b, BR_thigh = 8 / 10, BR_calf = - (18 / 10)\<rparr>
            else if m then
              \<lparr>FL_hip = FL_hip b, FL_thigh = FL_thigh b + p1 * GAIT_AMP,
                 FL_calf = FL_calf b - max 0 p1 * (1 / 2),
               FR_hip = FR_hip b, FR_thigh = FR_thigh b + p2 * GAIT_AMP,
                 FR_calf = FR_calf b - max 0 p2 * (1 / 2),
               BL_hip = BL_hip b, BL_thigh = BL_thigh b + p2 * GAIT_AMP,
                 BL_calf = BL_calf b - max 0 p2 * (1 / 2),
               BR_hip = BR_hip b, BR_thigh = BR_thigh b + p1 * GAIT_AMP,
                 BR_calf = BR_calf b - max 0 p1 * (1 / 2)\<rparr>
            else b)" for m
    unfolding gait_overlay_def Let_def assms(4,5)
    by (cases b) simp
  show ?thesis
    using g ov tick_rendered_independent [OF assms(1)] resolved_no_joint_update [OF assms(1)]
    by simp
qed

text \<open>
  Turning by key on the ground at clock time \<open>pi / 24\<close>, where \<open>p1 = 1\<close> and \<open>p2 = - 1\<close>: legs FL
  and BR swing and lift, legs FR and BL swing back without lifting, whatever pose was
  rendered before.
\<close>

lemma gait_overlay_fresh_example:
  "resolved_intent (quiet_frame\<lparr>elapsedTime := pi / 24, keys := (\<lambda>k. k = ''KeyA'')\<rparr>)
       grounded_robot
     = Some \<lparr>forward = 0, turn = 1, jump = False, activeDesc = []\<rparr> \<and>
   renderedJoints (tick (quiet_frame\<lparr>elapsedTime := pi / 24, keys := (\<lambda>k. k = ''KeyA'')\<rparr>)
       grounded_robot)
     = \<lparr>FL_hip = 0, FL_thigh = 9 / 10, FL_calf = - (3 / 2),
        FR_hip = 0, FR_thigh = 1 / 10, FR_calf = - 1,
        BL_hip = 0, BL_thigh = 1 / 10, BL_calf = - 1,
        BR_hip = 0, BR_thigh = 9 / 10, BR_calf = - (3 / 2)\<rparr> \<and>
   tick (quiet_frame\<lparr>elapsedTime := pi / 24, keys := (\<lambda>k. k = ''KeyA'')\<rparr>)
       (grounded_robot\<lparr>renderedJoints := sit_pose\<rparr>)
     = tick (quiet_frame\<lparr>elapsedTime := pi / 24, keys := (\<lambda>k. k = ''KeyA'')\<rparr>)
         grounded_robot"
proof -
  let ?inp = "quiet_frame\<lparr>elapsedTime := pi / 24, keys := (\<lambda>k. k = ''KeyA'')\<rparr>"
  let ?i = "\<lparr>forward = 0, turn = 1, jump = False, activeDesc = []\<rparr>"
  have ri: "resolved_intent ?inp grounded_robot = Some ?i"
    by (simp add: resolved_intent_def quiet_frame_def grounded_robot_def command_execution_def
        keyboard_input_def no_intent_def)
  have y: "vy (position (tick ?inp grounded_robot)) = 55 / 100"
    unfolding tick_resolved [OF ri]
    by (simp add: animation_update_fields physics_update_def
        vertical_update_def horizontal_update_def yaw_update_def Let_def after_commands_frame
        grounded_robot_def quiet_frame_def constants_defs)
  have bj: "baseJoints ?inp = stand_pose" and et: "elapsedTime ?inp = pi / 24"
    by (simp_all add: quiet_frame_def)
  note g = gait_overlay_fresh [OF ri refl refl refl refl, of sit_pose, unfolded bj et y]
  have s3: "sin (3 * pi / 2) = - 1"
    using sin_3over2_pi by simp
  have r1: "renderedJoints (tick ?inp grounded_robot)
              = \<lparr>FL_hip = 0, FL_thigh = 9 / 10, FL_calf = - (3 / 2),
                 FR_hip = 0, FR_thigh = 1 / 10, FR_calf = - 1,
                 BL_hip = 0, BL_thigh = 1 / 10, BL_calf = - 1,
                 BR_hip = 0, BR_thigh = 9 / 10, BR_calf = - (3 / 2)\<rparr>"
    using g by (simp add: constants_defs stand_pose_def s3)
  have r2: "tick ?inp (grounded_robot\<lparr>renderedJoints := sit_pose\<rparr>) = tick ?inp grounded_robot"
    using g by simp
  show ?thesis
    using ri r1 r2 by simp
qed

subsection \<open>Floor collision of a falling object\<close>

lemma object_frame_at_rest:
  "\<not> integrates ob \<Longrightarrow> object_frame m dt oid (ob, tr) = (ob, tr)"
  by (simp add: object_frame_def)

lemma object_run_at_rest:
  "\<not> integrates ob \<Longrightarrow> object_run oid fs (ob, tr) = (ob, tr)"
  by (induction fs) (auto simp: object_frame_at_rest)

lemma object_frame_integrated:
  "integrates ob \<Longrightarrow>
   object_frame True dt oid (ob, tr) =
     (integrate_step dt ob, tracker_set oid (pos (integrate_step dt ob)) tr)"
  by (simp add: object_frame_def Let_def)

lemma floor_collision_below:
  "vy (pos ob) < 15 / 100 \<Longrightarrow>
     vx (pos (floor_collision ob)) = vx (pos ob) \<and>
     vy (pos (floor_collision ob)) = 15 / 100 \<and>
     vz (pos (floor_collision ob)) = vz (pos ob) \<and>
     velocity (floor_collision ob) =
       (if \<bar>- velocity ob * (4 / 10)\<bar> < 5 / 10 then 0 else - velocity ob * (4 / 10))"
  by (simp add: floor_collision_def Let_def)

lemma integrate_step_below:
  assumes "vy (pos ob) + (velocity ob - GRAVITY * dt) * dt < 15 / 100"
  shows "vx (pos (integrate_step dt ob)) = vx (pos ob) \<and>
         vy (pos (integrate_step dt ob)) = 15 / 100 \<and>
         vz (pos (integrate_step dt ob)) = vz (pos ob) \<and>
         velocity (integrate_step dt ob) =
           (if \<bar>- (velocity ob - GRAVITY * dt) * (4 / 10)\<bar> < 5 / 10 then 0
            else - (velocity ob - GRAVITY * dt) * (4 / 10))"
proof -
  let ?o2 = "ob\<lparr>velocity := velocity ob - GRAVITY * dt,
         pos := (pos ob)\<lparr>vy := vy (pos ob) + (velocity ob - GRAVITY * dt) * dt\<rparr>\<rparr>"
  have "vy (pos ?o2) < 15 / 100"
    using assms by simp
  from floor_collision_below [OF this] show ?thesis
    unfolding integrate_step_def Let_def by simp
qed

text \<open>
  Claim C6. On a frame where an object integrates and its new height is below the rest
  threshold 0.15, the height is set to 0.15 and the velocity becomes the impact velocity
  reflected and scaled by 0.4; if that reflected speed is strictly below 0.5 the velocity is
  set to 0 instead, and from then on the object is at rest for good: every later run of
  frames, whatever their deltas, leaves its state as it is.
\<close>

theorem floor_bounce_and_rest:
  assumes "integrates ob"
    and "v1 = velocity ob - GRAVITY * dt"
    and "vy (pos ob) + v1 * dt < 15 / 100"
    and "ob' = fst (object_frame True dt oid (ob, tr))"
  shows "vy (pos ob') = 15 / 100 \<and>
         velocity ob' = (if \<bar>- v1 * (4 / 10)\<bar> < 5 / 10 then 0 else - v1 * (4 / 10)) \<and>
         (\<bar>- v1 * (4 / 10)\<bar> < 5 / 10 \<longrightarrow>
            velocity ob' = 0 \<and>
            (\<forall>fs. fst (object_run oid fs (object_frame True dt oid (ob, tr))) = ob'))"
proof -
  have o: "ob' = integrate_step dt ob"
    using assms(1,4) by (simp add: object_frame_integrated)
  have b: "vy (pos ob) + (velocity ob - GRAVITY * dt) * dt < 15 / 100"
    using assms(2,3) by simp
  note f = integrate_step_below [OF b, folded o assms(2)]
  have y: "vy (pos ob') = 15 / 100"
    and v: "velocity ob' = (if \<bar>- v1 * (4 / 10)\<bar> < 5 / 10 then 0 else - v1 * (4 / 10))"
    using f by blast+
  have rest: "fst (object_run oid fs (object_frame True dt oid (ob, tr))) = ob'"
    if "\<bar>- v1 * (4 / 10)\<bar> < 5 / 10" for fs
  proof -
    have "velocity ob' = 0"
      using v that by simp
    then have "\<not> integrates ob'"
      using y by (simp add: integrates_def)
    moreover have "object_frame True dt oid (ob, tr) = (ob', snd (object_frame True dt oid (ob, tr)))"
      using assms(4) by simp
    ultimately show ?thesis
      using object_run_at_rest [of ob' oid fs] by (metis fst_conv)
  qed
  show ?thesis using y v rest by simp
qed

text \<open>
  A cube hitting the floor at speed 5 rebounds at speed 2; a cube hitting it at speed 1
  would rebound at 0.4, so it is stopped and two further frames do not move it.
\<close>

theorem floor_bounce_and_rest_witness:
  "vy (pos (fst (object_frame True (1 / 10) ''cube_red'' (falling_cube, [])))) = 15 / 100 \<and>
   velocity (fst (object_frame True (1 / 10) ''cube_red'' (falling_cube, []))) = 2 \<and>
   vy (pos (fst (object_frame True (1 / 10) ''cube_red'' (hopping_cube, [])))) = 15 / 100 \<and>
   velocity (fst (object_frame True (1 / 10) ''cube_red'' (hopping_cube, []))) = 0 \<and>
   fst (object_run ''cube_red'' [(True, 1 / 10), (True, 1)]
          (object_frame True (1 / 10) ''cube_red'' (hopping_cube, [])))
     = fst (object_frame True (1 / 10) ''cube_red'' (hopping_cube, []))"
proof -
  have i1: "integrates falling_cube" and i2: "integrates hopping_cube"
    by (simp_all add: integrates_def falling_cube_def hopping_cube_def)
  have f1: "vy (pos falling_cube) + (- 5) * (1 / 10) < 15 / 100"
    and f2: "vy (pos hopping_cube) + (- 1) * (1 / 10) < 15 / 100"
    by (simp_all add: falling_cube_def hopping_cube_def)
  have v1: "- 5 = velocity falling_cube - GRAVITY * (1 / 10)"
    and v2: "- 1 = velocity hopping_cube - GRAVITY * (1 / 10)"
    by (simp_all add: falling_cube_def hopping_cube_def GRAVITY_def)
  show ?thesis
    using floor_bounce_and_rest [OF i1 v1 f1 refl, of "''cube_red''" "[]"]
      floor_bounce_and_rest [OF i2 v2 f2 refl, of "''cube_red''" "[]"]
    by (simp del: object_run.simps)
qed

text \<open>
  The result above is about the frame in which the velocity is zeroed. Whether a bouncing
  object comes to such a frame depends on the frame deltas: with a constant delta of a
  tenth of a second, a cube leaving the floor at 4/7 comes back to exactly that state on
  every frame, its reflected speed never falling below 0.5.
\<close>

lemma slow_frames_keep_bouncing:
  "fst (object_run oid (replicate n (True, 1 / 10)) (bouncing_cube, tr)) = bouncing_cube"
proof (induction n arbitrary: tr)
  case 0
  show ?case by simp
next
  case (Suc n)
  have i: "integrates bouncing_cube"
    by (simp add: integrates_def bouncing_cube_def)
  have s: "integrate_step (1 / 10) bouncing_cube = bouncing_cube"
    by (simp add: integrate_step_def floor_collision_def bouncing_cube_def GRAVITY_def Let_def)
  show ?case
    using Suc.IH by (simp add: object_frame_integrated [OF i] s)
qed

subsection \<open>Jumping\<close>

lemma jump_command_resolves:
  assumes "groupMounted inp" and "isExecutingRef s"
    and "cmdIndexRef s < length (commandQueue inp)"
    and "ctype (commandQueue inp ! cmdIndexRef s) = ''JUMP''"
    and "cmdStartTimeRef s = 0"
  shows "resolved_intent inp s = Some (no_intent\<lparr>jump := True\<rparr>)"
  using assms
  by (simp add: resolved_intent_def command_execution_def timed_command_def keyboard_input_def
      Let_def)

lemma vertical_update_vel:
  "verticalVel (vertical_update dt i s) =
     (let v0 = (if jump i \<and> vy (position s) \<le> GROUND_Y + 1 / 100 then JUMP_FORCE
                else verticalVel s)
      in if vy (position s) + (v0 - GRAVITY * dt) * dt < GROUND_Y then 0 else v0 - GRAVITY * dt)"
  by (simp add: vertical_update_def Let_def)

lemma vertical_update_y:
  "vy (position (vertical_update dt i s)) =
     (let v0 = (if jump i \<and> vy (position s) \<le> GROUND_Y + 1 / 100 then JUMP_FORCE
                else verticalVel s)
      in if vy (position s) + (v0 - GRAVITY * dt) * dt < GROUND_Y then GROUND_Y
         else vy (position s) + (v0 - GRAVITY * dt) * dt)"
  by (simp add: vertical_update_def Let_def)

lemma tick_vertical:
  assumes "resolved_intent inp s = Some i"
  shows "verticalVel (tick inp s) = verticalVel (vertical_update (delta inp) i s)"
    and "vy (position (tick inp s)) = vy (position (vertical_update (delta inp) i s))"
  unfolding tick_resolved [OF assms] physics_update_def
  by (simp_all add: animation_update_fields vertical_update_vel vertical_update_y Let_def
      horizontal_update_fields yaw_update_fields after_commands_frame)

text \<open>
  Claim C5, as the code has it. Gravity is applied in the same frame in which the jump sets
  the vertical velocity. So a jump resolved on a frame where \<open>position.y = GROUND_Y\<close> leaves
  the vertical velocity at \<open>JUMP_FORCE - GRAVITY * delta\<close> after that frame (at 0 if that
  velocity would take the robot below the ground within the frame). On a later frame that
  starts airborne (\<open>y > GROUND_Y + 0.01\<close>) and ends above the ground, a frame that integrates
  lowers the vertical velocity by exactly \<open>GRAVITY * delta\<close>; hence, for \<open>delta \<ge> 0\<close>, the
  vertical velocity never increases over such a frame.
\<close>

theorem jump_velocity_after_gravity:
  "(resolved_intent inp s = Some i \<and> jump i \<and> vy (position s) = GROUND_Y \<longrightarrow>
      verticalVel (tick inp s) =
        (if (JUMP_FORCE - GRAVITY * delta inp) * delta inp < 0 then 0
         else JUMP_FORCE - GRAVITY * delta inp)) \<and>
   (resolved_intent inp s = Some i \<and> GROUND_Y + 1 / 100 < vy (position s) \<and>
      GROUND_Y < vy (position (tick inp s)) \<longrightarrow>
      verticalVel (tick inp s) = verticalVel s - GRAVITY * delta inp) \<and>
   (GROUND_Y + 1 / 100 < vy (position s) \<and> GROUND_Y < vy (position (tick inp s)) \<and>
      0 \<le> delta inp \<longrightarrow>
      verticalVel (tick inp s) \<le> verticalVel s)"
proof -
  have a: "verticalVel (tick inp s) =
        (if (JUMP_FORCE - GRAVITY * delta inp) * delta inp < 0 then 0
         else JUMP_FORCE - GRAVITY * delta inp)"
    if "resolved_intent inp s = Some i" "jump i" "vy (position s) = GROUND_Y"
    using that by (simp add: tick_vertical vertical_update_vel Let_def)
  have b: "verticalVel (tick inp s) = verticalVel s - GRAVITY * delta inp"
    if r: "resolved_intent inp s = Some i" and g: "GROUND_Y + 1 / 100 < vy (position s)"
      and n: "GROUND_Y < vy (position (tick inp s))" for i
  proof -
    have "\<not> vy (position s) + (verticalVel s - GRAVITY * delta inp) * delta inp < GROUND_Y"
      using n g unfolding tick_vertical(2) [OF r] vertical_update_y
      by (auto simp: Let_def split: if_splits)
    then show ?thesis
      using g unfolding tick_vertical(1) [OF r] vertical_update_vel by (simp add: Let_def)
  qed
  have c: "verticalVel (tick inp s) \<le> verticalVel s"
    if g: "GROUND_Y + 1 / 100 < vy (position s)" and n: "GROUND_Y < vy (position (tick inp s))"
      and d: "0 \<le> delta inp"
  proof (cases "resolved_intent inp s")
    case None
    then show ?thesis using tick_unresolved by simp
  next
    case (Some j)
    have "0 \<le> GRAVITY * delta inp"
      using d by (simp add: GRAVITY_def)
    then show ?thesis using b [OF Some g n] by simp
  qed
  show ?thesis using a b c by blast
qed

text \<open>
  A queued jump from the ground with a frame of a tenth of a second, and the first frame of
  the fall from the initial height.
\<close>

theorem jump_velocity_after_gravity_witness:
  "verticalVel (tick (quiet_frame\<lparr>commandQueue := [command ''JUMP'']\<rparr>)
       (grounded_robot\<lparr>isExecutingRef := True\<rparr>)) = JUMP_FORCE - GRAVITY * (1 / 10) \<and>
   verticalVel (tick quiet_frame (initial_robot stand_pose)) = - 2 \<and>
   verticalVel (tick quiet_frame (initial_robot stand_pose))
     \<le> verticalVel (initial_robot stand_pose)"
proof -
  let ?inp = "quiet_frame\<lparr>commandQueue := [command ''JUMP'']\<rparr>"
  let ?s = "grounded_robot\<lparr>isExecutingRef := True\<rparr>"
  have ri: "resolved_intent ?inp ?s = Some (no_intent\<lparr>jump := True\<rparr>)"
    by (rule jump_command_resolves)
      (simp_all add: quiet_frame_def grounded_robot_def command_def)
  have y: "vy (position ?s) = GROUND_Y"
    by (simp add: grounded_robot_def GROUND_Y_def)
  have d: "delta ?inp = 1 / 10" "delta quiet_frame = 1 / 10"
    by (simp_all add: quiet_frame_def)
  have j: "jump (no_intent\<lparr>jump := True\<rparr>)"
    by simp
  have up: "\<not> (JUMP_FORCE - GRAVITY * (1 / 10)) * (1 / 10) < (0::real)"
    by (simp add: constants_defs)
  have r0: "resolved_intent quiet_frame (initial_robot stand_pose) = Some no_intent"
    by (simp add: resolved_intent_def quiet_frame_def initial_robot_def command_execution_def
        keyboard_input_def no_intent_def)
  have air: "GROUND_Y + 1 / 100 < vy (position (initial_robot stand_pose))"
    by (simp add: initial_robot_def GROUND_Y_def)
  have y0: "vy (position (tick quiet_frame (initial_robot stand_pose))) = 18 / 10"
    unfolding tick_vertical(2) [OF r0] vertical_update_y d
    by (simp add: initial_robot_def no_intent_def constants_defs Let_def)
  have still: "GROUND_Y < vy (position (tick quiet_frame (initial_robot stand_pose)))"
    unfolding y0 by (simp add: GROUND_Y_def)
  have v0: "verticalVel (initial_robot stand_pose) = 0"
    by (simp add: initial_robot_def)
  have g: "GRAVITY * (1 / 10) = 2"
    by (simp add: GRAVITY_def)
  show ?thesis
    using jump_velocity_after_gravity [of ?inp ?s "no_intent\<lparr>jump := True\<rparr>"]
      jump_velocity_after_gravity [of quiet_frame "initial_robot stand_pose" no_intent]
      ri y j up r0 air still
    unfolding d v0 g by simp
qed

text \<open>
  Claim C5 as stated fails: after the frame of a queued \<^verbatim>\<open>JUMP\<close> taken on the ground with
  \<open>delta = 0.1\<close>, the vertical velocity is 6, not \<open>JUMP_FORCE\<close>.
\<close>

theorem jump_velocity_is_not_jump_force:
  "vy (position (grounded_robot\<lparr>isExecutingRef := True\<rparr>)) = GROUND_Y \<and>
   resolved_intent (quiet_frame\<lparr>commandQueue := [command ''JUMP'']\<rparr>)
       (grounded_robot\<lparr>isExecutingRef := True\<rparr>)
     = Some \<lparr>forward = 0, turn = 0, jump = True, activeDesc = []\<rparr> \<and>
   verticalVel (tick (quiet_frame\<lparr>commandQueue := [command ''JUMP'']\<rparr>)
       (grounded_robot\<lparr>isExecutingRef := True\<rparr>)) = 6 \<and>
   verticalVel (tick (quiet_frame\<lparr>commandQueue := [command ''JUMP'']\<rparr>)
       (grounded_robot\<lparr>isExecutingRef := True\<rparr>)) \<noteq> JUMP_FORCE"
proof -
  let ?inp = "quiet_frame\<lparr>commandQueue := [command ''JUMP'']\<rparr>"
  let ?s = "grounded_robot\<lparr>isExecutingRef := True\<rparr>"
  have ri: "resolved_intent ?inp ?s = Some (no_intent\<lparr>jump := True\<rparr>)"
    by (rule jump_command_resolves)
      (simp_all add: quiet_frame_def grounded_robot_def command_def)
  have y: "vy (position ?s) = GROUND_Y"
    by (simp add: grounded_robot_def GROUND_Y_def)
  have d: "delta ?inp = 1 / 10"
    by (simp add: quiet_frame_def)
  have v: "verticalVel (tick ?inp ?s) = 6"
    unfolding tick_vertical(1) [OF ri] vertical_update_vel d y
    by (simp add: no_intent_def constants_defs Let_def)
  show ?thesis
    using ri y v by (simp add: no_intent_def JUMP_FORCE_def)
qed

subsection \<open>Frames that start a \<^verbatim>\<open>SET_JOINTS\<close> command\<close>

lemma set_joints_frame_returns:
  assumes "groupMounted inp" and "isExecutingRef s"
    and "cmdIndexRef s < length (commandQueue inp)"
    and "cmdStartTimeRef s = 0"
    and "ctype (commandQueue inp ! cmdIndexRef s) = ''SET_JOINTS''"
    and "targetJoints (commandQueue inp ! cmdIndexRef s) = Some tj"
  shows "robot_frame inp s =
           (s\<lparr>cmdIndexRef := cmdIndexRef s + 1, cmdStartTimeRef := 0\<rparr>,
            no_effects\<lparr>updatedJoints := Some tj\<rparr>)"
    and "resolved_intent inp s = None"
  using assms
  by (simp_all add: robot_frame_def resolved_intent_def command_execution_def Let_def)

text \<open>
  Claim C1 says that the physics integration runs on every frame, also on one that starts a
  \<^verbatim>\<open>SET_JOINTS\<close> command. The callback instead returns right after handing the target pose
  to the parent: on such a frame position, yaw, vertical velocity and rendered pose are left
  as they were, the command index advances, and no telemetry is emitted.
\<close>

theorem set_joints_frame_skips_physics:
  assumes "groupMounted inp" and "isExecutingRef s"
    and "cmdIndexRef s < length (commandQueue inp)"
    and "cmdStartTimeRef s = 0"
    and "ctype (commandQueue inp ! cmdIndexRef s) = ''SET_JOINTS''"
    and "targetJoints (commandQueue inp ! cmdIndexRef s) = Some tj"
  shows "position (tick inp s) = position s \<and> rotation (tick inp s) = rotation s \<and>
         verticalVel (tick inp s) = verticalVel s \<and>
         renderedJoints (tick inp s) = renderedJoints s \<and>
         cmdIndexRef (tick inp s) = cmdIndexRef s + 1 \<and>
         updatedStats (snd (robot_frame inp s)) = None"
  unfolding tick_def set_joints_frame_returns(1) [OF assms]
  by (simp add: no_effects_def)

text \<open>
  The robot at its initial height of 2 with a queued \<^verbatim>\<open>SET_JOINTS\<close>: the frame leaves it
  hanging at height 2 with vertical velocity 0, where the physics update on the same input
  gives height 1.8 and velocity -2, as the frame of a queued \<^verbatim>\<open>JUMP\<close> does.
\<close>

theorem set_joints_frame_skips_physics_witness:
  "verticalVel (tick (quiet_frame\<lparr>commandQueue := [(command ''SET_JOINTS'')\<lparr>targetJoints := Some sit_pose\<rparr>]\<rparr>)
       ((initial_robot stand_pose)\<lparr>isExecutingRef := True\<rparr>)) = 0 \<and>
   vy (position (tick (quiet_frame\<lparr>commandQueue := [(command ''SET_JOINTS'')\<lparr>targetJoints := Some sit_pose\<rparr>]\<rparr>)
       ((initial_robot stand_pose)\<lparr>isExecutingRef := True\<rparr>))) = 2 \<and>
   verticalVel (physics_update (quiet_frame\<lparr>commandQueue := [(command ''SET_JOINTS'')\<lparr>targetJoints := Some sit_pose\<rparr>]\<rparr>)
       no_intent ((initial_robot stand_pose)\<lparr>isExecutingRef := True\<rparr>)) = - 2 \<and>
   vy (position (physics_update (quiet_frame\<lparr>commandQueue := [(command ''SET_JOINTS'')\<lparr>targetJoints := Some sit_pose\<rparr>]\<rparr>)
       no_intent ((initial_robot stand_pose)\<lparr>isExecutingRef := True\<rparr>))) = 18 / 10 \<and>
   verticalVel (tick (quiet_frame\<lparr>commandQueue := [command ''JUMP'']\<rparr>)
       ((initial_robot stand_pose)\<lparr>isExecutingRef := True\<rparr>)) = - 2"
proof -
  let ?inp = "quiet_frame\<lparr>commandQueue := [(command ''SET_JOINTS'')\<lparr>targetJoints := Some sit_pose\<rparr>]\<rparr>"
  let ?s = "(initial_robot stand_pose)\<lparr>isExecutingRef := True\<rparr>"
  have h: "groupMounted ?inp" "isExecutingRef ?s" "cmdIndexRef ?s < length (commandQueue ?inp)"
    "cmdStartTimeRef ?s = 0" "ctype (commandQueue ?inp ! cmdIndexRef ?s) = ''SET_JOINTS''"
    "targetJoints (commandQueue ?inp ! cmdIndexRef ?s) = Some sit_pose"
    by (simp_all add: quiet_frame_def initial_robot_def command_def)
  have p: "verticalVel (physics_update ?inp no_intent ?s) = - 2 \<and>
           vy (position (physics_update ?inp no_intent ?s)) = 18 / 10"
    by (simp add: physics_update_def vertical_update_vel vertical_update_y Let_def
        horizontal_update_fields yaw_update_fields quiet_frame_def initial_robot_def
        no_intent_def constants_defs)
  let ?inpj = "quiet_frame\<lparr>commandQueue := [command ''JUMP'']\<rparr>"
  have rj: "resolved_intent ?inpj ?s = Some (no_intent\<lparr>jump := True\<rparr>)"
    by (rule jump_command_resolves)
      (simp_all add: quiet_frame_def initial_robot_def command_def)
  have j: "verticalVel (tick ?inpj ?s) = - 2"
    unfolding tick_vertical(1) [OF rj] vertical_update_vel
    by (simp add: quiet_frame_def initial_robot_def no_intent_def constants_defs Let_def)
  show ?thesis
    using set_joints_frame_skips_physics [OF h] p j
    by (simp add: initial_robot_def)
qed

text \<open>
  Claim C8 says that the gait overlay is recomputed on each frame from the base pose. On a
  frame that starts a \<^verbatim>\<open>SET_JOINTS\<close> command carrying a target the callback returns before
  the animation update: the rendered pose is kept as it was, the base pose of that frame
  has no influence on the outcome, and the target pose is handed to the parent. On the
  frames that reach the animation update the overlay is the one the claim describes, as
  shown above.
\<close>

theorem set_joints_frame_keeps_stale_pose:
  assumes "groupMounted inp" and "isExecutingRef s"
    and "cmdIndexRef s < length (commandQueue inp)"
    and "cmdStartTimeRef s = 0"
    and "ctype (commandQueue inp ! cmdIndexRef s) = ''SET_JOINTS''"
    and "targetJoints (commandQueue inp ! cmdIndexRef s) = Some tj"
  shows "renderedJoints (tick inp s) = renderedJoints s \<and>
         tick (inp\<lparr>baseJoints := b\<rparr>) s = tick inp s \<and>
         updatedJoints (snd (robot_frame inp s)) = Some tj"
proof -
  have h: "groupMounted (inp\<lparr>baseJoints := b\<rparr>)"
    "cmdIndexRef s < length (commandQueue (inp\<lparr>baseJoints := b\<rparr>))"
    "ctype (commandQueue (inp\<lparr>baseJoints := b\<rparr>) ! cmdIndexRef s) = ''SET_JOINTS''"
    "targetJoints (commandQueue (inp\<lparr>baseJoints := b\<rparr>) ! cmdIndexRef s) = Some tj"
    using assms by simp_all
  show ?thesis
    unfolding tick_def set_joints_frame_returns(1) [OF assms]
      set_joints_frame_returns(1) [OF h(1) assms(2) h(2) assms(4) h(3) h(4)]
    by (simp add: no_effects_def)
qed

text \<open>
  A freshly installed queue of two \<^verbatim>\<open>SET_JOINTS\<close> entries on the standing robot: after
  the first frame the parent's base pose is the sitting pose, yet the second frame still
  leaves the standing pose rendered, where the overlay of the sitting pose for a grounded
  robot that does not move is the sitting pose itself.
\<close>

theorem set_joints_frame_keeps_stale_pose_witness:
  "renderedJoints (run
      [QueueInstalled [(command ''SET_JOINTS'')\<lparr>targetJoints := Some sit_pose\<rparr>,
                       (command ''SET_JOINTS'')\<lparr>targetJoints := Some sit_pose\<rparr>],
       Frame (quiet_frame\<lparr>commandQueue :=
                [(command ''SET_JOINTS'')\<lparr>targetJoints := Some sit_pose\<rparr>,
                 (command ''SET_JOINTS'')\<lparr>targetJoints := Some sit_pose\<rparr>]\<rparr>),
       Frame (quiet_frame\<lparr>baseJoints := sit_pose, commandQueue :=
                [(command ''SET_JOINTS'')\<lparr>targetJoints := Some sit_pose\<rparr>,
                 (command ''SET_JOINTS'')\<lparr>targetJoints := Some sit_pose\<rparr>]\<rparr>)]
      grounded_robot) = stand_pose \<and>
   vy (position (run
      [QueueInstalled [(command ''SET_JOINTS'')\<lparr>targetJoints := Some sit_pose\<rparr>,
                       (command ''SET_JOINTS'')\<lparr>targetJoints := Some sit_pose\<rparr>],
       Frame (quiet_frame\<lparr>commandQueue :=
                [(command ''SET_JOINTS'')\<lparr>targetJoints := Some sit_pose\<rparr>,
                 (command ''SET_JOINTS'')\<lparr>targetJoints := Some sit_pose\<rparr>]\<rparr>),
       Frame (quiet_frame\<lparr>baseJoints := sit_pose, commandQueue :=
                [(command ''SET_JOINTS'')\<lparr>targetJoints := Some sit_pose\<rparr>,
                 (command ''SET_JOINTS'')\<lparr>targetJoints := Some sit_pose\<rparr>]\<rparr>)]
      grounded_robot)) = 55 / 100 \<and>
   gait_overlay sit_pose (55 / 100) False 1 = sit_pose \<and>
   stand_pose \<noteq> sit_pose"
proof -
  let ?c = "(command ''SET_JOINTS'')\<lparr>targetJoints := Some sit_pose\<rparr>"
  let ?q = "[?c, ?c]"
  let ?f1 = "quiet_frame\<lparr>commandQueue := ?q\<rparr>"
  let ?f2 = "quiet_frame\<lparr>baseJoints := sit_pose, commandQueue := ?q\<rparr>"
  let ?s0 = "queue_effect ?q grounded_robot"
  let ?s1 = "?s0\<lparr>cmdIndexRef := cmdIndexRef ?s0 + 1, cmdStartTimeRef := 0\<rparr>"
  have s0: "isExecutingRef ?s0" "cmdIndexRef ?s0 = 0" "cmdStartTimeRef ?s0 = 0"
    "renderedJoints ?s0 = stand_pose" "vy (position ?s0) = 55 / 100"
    by (simp_all add: queue_effect_def grounded_robot_def Let_def)
  have h1: "groupMounted ?f1" "cmdIndexRef ?s0 < length (commandQueue ?f1)"
    "ctype (commandQueue ?f1 ! cmdIndexRef ?s0) = ''SET_JOINTS''"
    "targetJoints (commandQueue ?f1 ! cmdIndexRef ?s0) = Some sit_pose"
    unfolding s0(2) by (simp_all add: quiet_frame_def command_def)
  have t1: "tick ?f1 ?s0 = ?s1"
    unfolding tick_def set_joints_frame_returns(1) [OF h1(1) s0(1) h1(2) s0(3) h1(3) h1(4)]
    by simp
  have i1: "cmdIndexRef ?s1 = 1" "isExecutingRef ?s1" "cmdStartTimeRef ?s1 = 0"
    by (simp_all add: s0)
  have j2: "groupMounted ?f2" "cmdIndexRef ?s1 < length (commandQueue ?f2)"
    "ctype (commandQueue ?f2 ! cmdIndexRef ?s1) = ''SET_JOINTS''"
    "targetJoints (commandQueue ?f2 ! cmdIndexRef ?s1) = Some sit_pose"
    unfolding i1(1) by (simp_all add: quiet_frame_def command_def)
  note h2 = j2(1) i1(2) j2(2) i1(3) j2(3) j2(4)
  have r: "run [QueueInstalled ?q, Frame ?f1, Frame ?f2] grounded_robot = tick ?f2 ?s1"
    by (simp add: t1)
  have y: "vy (position (tick ?f2 ?s1)) = 55 / 100"
    unfolding tick_def set_joints_frame_returns(1) [OF h2]
    by (simp add: s0)
  have g: "gait_overlay sit_pose (55 / 100) False 1 = sit_pose"
    by (simp add: gait_overlay_def GROUND_Y_def)
  have d: "stand_pose \<noteq> sit_pose"
    by (simp add: stand_pose_def sit_pose_def)
  show ?thesis
    unfolding r
    using set_joints_frame_keeps_stale_pose [OF h2, of stand_pose] y g d
    by (simp add: s0)
qed

subsection \<open>Malformed commands\<close>

lemma targetless_set_joints_frame:
  assumes "isExecutingRef s" and "cmdIndexRef s < length (commandQueue inp)"
    and "ctype (commandQueue inp ! cmdIndexRef s) = ''SET_JOINTS''"
    and "targetJoints (commandQueue inp ! cmdIndexRef s) = None"
  shows "command_execution inp s =
           Continue (if cmdStartTimeRef s = 0 then s\<lparr>cmdStartTimeRef := elapsedTime inp\<rparr> else s)
             no_intent False"
  using assms by (simp add: command_execution_def timed_command_def Let_def)

lemma targetless_set_joints_tick:
  assumes "isExecutingRef s" and "cmdIndexRef s < length (commandQueue inp)"
    and "ctype (commandQueue inp ! cmdIndexRef s) = ''SET_JOINTS''"
    and "targetJoints (commandQueue inp ! cmdIndexRef s) = None"
  shows "cmdIndexRef (tick inp s) = cmdIndexRef s \<and> isExecutingRef (tick inp s) \<and>
         \<not> queueCleared (snd (robot_frame inp s)) \<and>
         updatedJoints (snd (robot_frame inp s)) = None"
proof (cases "groupMounted inp")
  case False
  then show ?thesis using assms(1) by (simp add: tick_def robot_frame_def no_effects_def)
next
  case True
  have p: "cmdIndexRef (physics_update inp i t) = cmdIndexRef t \<and>
           isExecutingRef (physics_update inp i t) = isExecutingRef t" for i t
    by (simp add: physics_update_def vertical_update_def horizontal_update_def yaw_update_def
        Let_def)
  show ?thesis
    using True assms(1)
    unfolding tick_def robot_frame_def targetless_set_joints_frame [OF assms] Let_def
    by (simp add: animation_update_def p)
qed

text \<open>
  Claim C4 says that a malformed command is eventually consumed. A \<^verbatim>\<open>SET_JOINTS\<close> entry
  without \<^verbatim>\<open>targetJoints\<close> is not: as long as the queue prop stays the same, no run of
  frames moves the command index past it, and the controller stays in executing mode.
\<close>

theorem targetless_set_joints_stalls:
  assumes "isExecutingRef s" and "cmdIndexRef s < length q"
    and "ctype (q ! cmdIndexRef s) = ''SET_JOINTS''"
    and "targetJoints (q ! cmdIndexRef s) = None"
    and "\<forall>inp \<in> set inps. commandQueue inp = q"
  shows "cmdIndexRef (run (map Frame inps) s) = cmdIndexRef s \<and>
         isExecutingRef (run (map Frame inps) s)"
  using assms
proof (induction inps arbitrary: s)
  case Nil
  then show ?case by simp
next
  case (Cons inp inps)
  have q: "commandQueue inp = q" using Cons.prems(5) by simp
  have t: "cmdIndexRef (tick inp s) = cmdIndexRef s \<and> isExecutingRef (tick inp s)"
    using targetless_set_joints_tick [of s inp] Cons.prems(1-4) q by simp
  have "cmdIndexRef (run (map Frame inps) (tick inp s)) = cmdIndexRef (tick inp s) \<and>
        isExecutingRef (run (map Frame inps) (tick inp s))"
    using Cons.IH [of "tick inp s"] Cons.prems t by simp
  then show ?case using t by simp
qed

text \<open>
  Two frames, four seconds apart, on a queue whose first entry is a \<^verbatim>\<open>SET_JOINTS\<close>
  without target: the index is still 0.
\<close>

theorem targetless_set_joints_stalls_witness:
  "cmdIndexRef (run
      [Frame (quiet_frame\<lparr>commandQueue := [command ''SET_JOINTS'', command ''JUMP'']\<rparr>),
       Frame (quiet_frame\<lparr>commandQueue := [command ''SET_JOINTS'', command ''JUMP''],
                elapsedTime := 5\<rparr>)]
      (grounded_robot\<lparr>isExecutingRef := True\<rparr>)) = 0 \<and>
   isExecutingRef (run
      [Frame (quiet_frame\<lparr>commandQueue := [command ''SET_JOINTS'', command ''JUMP'']\<rparr>),
       Frame (quiet_frame\<lparr>commandQueue := [command ''SET_JOINTS'', command ''JUMP''],
                elapsedTime := 5\<rparr>)]
      (grounded_robot\<lparr>isExecutingRef := True\<rparr>))"
proof -
  let ?q = "[command ''SET_JOINTS'', command ''JUMP'']"
  let ?s = "grounded_robot\<lparr>isExecutingRef := True\<rparr>"
  let ?inps = "[quiet_frame\<lparr>commandQueue := ?q\<rparr>,
                quiet_frame\<lparr>commandQueue := ?q, elapsedTime := 5\<rparr>]"
  have h: "isExecutingRef ?s" "cmdIndexRef ?s < length ?q"
    "ctype (?q ! cmdIndexRef ?s) = ''SET_JOINTS''" "targetJoints (?q ! cmdIndexRef ?s) = None"
    "\<forall>inp \<in> set ?inps. commandQueue inp = ?q"
    by (simp_all add: grounded_robot_def command_def)
  have z: "cmdIndexRef ?s = 0"
    by (simp add: grounded_robot_def)
  show ?thesis
    using targetless_set_joints_stalls [OF h] z by simp
qed

text \<open>
  An entry with an unknown type, by contrast, is handled like \<^verbatim>\<open>WAIT\<close>: it sets no intent
  and is consumed once its duration has elapsed.
\<close>

lemma unknown_type_frame:
  assumes "isExecutingRef s" and "cmdIndexRef s < length (commandQueue inp)"
    and "cmd = commandQueue inp ! cmdIndexRef s"
    and "ctype cmd \<notin> {''SET_JOINTS'', ''JUMP'', ''MOVE_FORWARD'', ''MOVE_BACKWARD'',
           ''TURN_LEFT'', ''TURN_RIGHT''}"
    and "start = (if cmdStartTimeRef s = 0 then elapsedTime inp else cmdStartTimeRef s)"
  shows "command_execution inp s =
           (if elapsedTime inp - start < duration_or_default cmd
            then Continue (s\<lparr>cmdStartTimeRef := start\<rparr>)
                   (no_intent\<lparr>activeDesc := description_or_type cmd\<rparr>) False
            else Continue (s\<lparr>cmdIndexRef := cmdIndexRef s + 1, cmdStartTimeRef := 0\<rparr>)
                   (no_intent\<lparr>activeDesc := description_or_type cmd\<rparr>) False)"
  using assms by (simp add: command_execution_def timed_command_def Let_def)

lemma tick_command_state:
  assumes "groupMounted inp" and "command_execution inp s = Continue s1 i c"
  shows "cmdIndexRef (tick inp s) = cmdIndexRef s1 \<and>
         cmdStartTimeRef (tick inp s) = cmdStartTimeRef s1 \<and>
         isExecutingRef (tick inp s) = isExecutingRef s1"
  using assms(1) unfolding tick_def robot_frame_def assms(2) Let_def
  by (simp add: animation_update_def physics_update_def vertical_update_def
      horizontal_update_def yaw_update_def Let_def)

lemma unknown_type_is_consumed:
  "cmdIndexRef (run
      [Frame (quiet_frame\<lparr>commandQueue := [command ''DANCE'', command ''JUMP'']\<rparr>),
       Frame (quiet_frame\<lparr>commandQueue := [command ''DANCE'', command ''JUMP''],
                elapsedTime := 5\<rparr>)]
      (grounded_robot\<lparr>isExecutingRef := True\<rparr>)) = 1"
proof -
  let ?q = "[command ''DANCE'', command ''JUMP'']"
  let ?s = "grounded_robot\<lparr>isExecutingRef := True\<rparr>"
  let ?i1 = "quiet_frame\<lparr>commandQueue := ?q\<rparr>"
  let ?i2 = "quiet_frame\<lparr>commandQueue := ?q, elapsedTime := 5\<rparr>"
  have m: "groupMounted ?i1" "groupMounted ?i2"
    by (simp_all add: quiet_frame_def)
  have c1: "command_execution ?i1 ?s =
              Continue (?s\<lparr>cmdStartTimeRef := 1\<rparr>) (no_intent\<lparr>activeDesc := ''DANCE''\<rparr>) False"
    by (simp add: unknown_type_frame [where cmd = "command ''DANCE''" and start = 1]
        grounded_robot_def quiet_frame_def command_def duration_or_default_def
        description_or_type_def)
  note t1 = tick_command_state [OF m(1) c1]
  have s1: "isExecutingRef (tick ?i1 ?s)" "cmdIndexRef (tick ?i1 ?s) = 0"
    "cmdStartTimeRef (tick ?i1 ?s) = 1"
    using t1 by (simp_all add: grounded_robot_def)
  have c2: "command_execution ?i2 (tick ?i1 ?s) =
              Continue ((tick ?i1 ?s)\<lparr>cmdIndexRef := cmdIndexRef (tick ?i1 ?s) + 1,
                  cmdStartTimeRef := 0\<rparr>) (no_intent\<lparr>activeDesc := ''DANCE''\<rparr>) False"
    using s1
    by (simp add: unknown_type_frame [where cmd = "command ''DANCE''" and start = 1]
        quiet_frame_def command_def duration_or_default_def description_or_type_def)
  note t2 = tick_command_state [OF m(2) c2]
  show ?thesis
    using t2 s1 by simp
qed

end
